theory Spec2Isabelle
  imports Main "HOL-Library.Sublist"
begin

section \<open>Data model of \<open>packages/core/src/NodeView.ts\<close>\<close>

subsection \<open>Values of the host engine\<close>

text \<open>
  JavaScript values that reach the node view through untyped channels: transaction
  metadata (\<open>getMeta\<close> returns \<open>any\<close>) and node attributes.
\<close>

datatype js_value = JUndefined | JNull | JBool bool | JNum int | JStr string

text \<open>A plain object (\<open>node.attrs\<close>, the argument of \<open>updateAttributes\<close>) is a dictionary.\<close>

type_synonym js_object = "string \<rightharpoonup> js_value"

text \<open>
  A document node of the host engine. Nodes are immutable objects that the node view
  compares with \<open>===\<close>, so every node carries its object identity \<open>node_ident\<close>;
  the remaining fields are the properties \<open>NodeView.ts\<close> reads:
  \<open>node.isLeaf\<close>, the truthiness of \<open>node.type.spec.draggable\<close>, the result of
  \<open>NodeSelection.isSelectable(node)\<close>, and \<open>node.attrs\<close>.
\<close>

record pm_node =
  node_ident :: nat
  isLeaf :: bool
  spec_draggable :: bool
  isSelectable :: bool
  attrs :: js_object

text \<open>\<open>newNode === this.node\<close>, where \<open>newNode\<close> may be \<open>null\<close>.\<close>

definition strict_eq_node :: "pm_node option \<Rightarrow> pm_node \<Rightarrow> bool" where
  "strict_eq_node newNode thisNode =
     (case newNode of None \<Rightarrow> False | Some n \<Rightarrow> node_ident n = node_ident thisNode)"

text \<open>
  A remap function of the host engine, \<open>map.map(pos, assoc)\<close>: the old position and the
  bias give the new position.
\<close>

type_synonym step_map = "int \<Rightarrow> int \<Rightarrow> int"

text \<open>
  What \<open>onBeforeUpdateState\<close> reads of a transaction: \<open>transaction.docChanged\<close>,
  \<open>transaction.mapping.maps\<close>, \<open>transaction.doc.nodeAt(pos)\<close> and
  \<open>transaction.getMeta(key)\<close>.
\<close>

record transaction =
  docChanged :: bool
  mapping_maps :: "step_map list"
  doc_nodeAt :: "int \<Rightarrow> pm_node option"
  getMeta :: "string \<Rightarrow> js_value"

subsection \<open>The DOM\<close>

text \<open>
  An element is named by its path from the document root (the child indices, root
  first), so that \<open>a.contains(b)\<close> is "the path of \<open>a\<close> is a prefix of the path of
  \<open>b\<close>" and \<open>closest\<close> walks the prefixes of a path from the longest down.
  A document gives the properties of its elements that the node view reads.
\<close>

type_synonym element = "nat list"

record dom_document =
  tagName :: "element \<Rightarrow> string"
  isContentEditable :: "element \<Rightarrow> bool"
  data_drag_handle :: "element \<Rightarrow> bool"

definition contains :: "element \<Rightarrow> element \<Rightarrow> bool" where
  "contains a b = prefix a b"

text \<open>\<open>e.closest('[data-drag-handle]')\<close>: the nearest inclusive ancestor element that matches.\<close>

definition closest_drag_handle :: "dom_document \<Rightarrow> element \<Rightarrow> element option" where
  "closest_drag_handle d e = find (data_drag_handle d) (rev (tl (prefixes e)))"

record dom_event =
  event_type :: string
  event_target :: element
  defaultPrevented :: bool

definition preventDefault :: "dom_event \<Rightarrow> dom_event" where
  "preventDefault event = event\<lparr>defaultPrevented := True\<rparr>"

text \<open>\<open>MutationRecord | { type: 'selection', target: Element }\<close>\<close>

record mutation =
  mutation_type :: string
  mutation_target :: element
  addedNodes :: "element list"
  removedNodes :: "element list"

subsection \<open>The node view instance\<close>

text \<open>\<open>NodeViewRendererOptions\<close>: each option is a function or \<open>null\<close>.\<close>

record node_view_renderer_options =
  opt_stopEvent :: "(dom_event \<Rightarrow> bool) option"
  opt_update :: "(pm_node \<Rightarrow> nat list \<Rightarrow> bool) option"

text \<open>
  \<open>Partial<NodeViewRendererOptions>\<close>: a key may be absent (\<open>None\<close>) or present with a
  function or \<open>null\<close>.
\<close>

record partial_options =
  part_stopEvent :: "(dom_event \<Rightarrow> bool) option option"
  part_update :: "(pm_node \<Rightarrow> nat list \<Rightarrow> bool) option option"

text \<open>
  The editing view of the host engine as the node view uses it: \<open>view.editable\<close>,
  \<open>view.state\<close> (opaque) and \<open>view.dispatch\<close>, which is recorded as the list of the
  transactions handed to it. The only transaction \<open>updateAttributes\<close> builds is
  \<open>state.tr.setNodeMarkup(pos, type, attrs)\<close>.
\<close>

type_synonym pm_state = nat

datatype pm_tr = SetNodeMarkup pm_state int "nat option" js_object

record editor_view =
  editable :: bool
  view_state :: pm_state
  dispatched :: "pm_tr list"

definition dispatch :: "pm_tr \<Rightarrow> editor_view \<Rightarrow> editor_view" where
  "dispatch tr v = v\<lparr>dispatched := dispatched v @ [tr]\<rparr>"

type_synonym ref = nat

text \<open>\<open>NodeViewCacheItem\<close>: the handle of a cache entry, with \<open>id\<close> and \<open>instance\<close>.\<close>

record cache_item =
  item_id :: nat
  item_instance :: ref

text \<open>
  The fields of class \<open>NodeView\<close>. \<open>isSame\<close> and \<open>cache\<close> are declared without an
  initialiser (\<open>isSame!: boolean\<close>), so they are \<open>undefined\<close> (\<open>None\<close>) until assigned.
  The field \<open>editor\<close> is the one editor of the model, see \<open>editor\<close> below.
\<close>

record node_view =
  component :: nat
  extension :: nat
  node :: pm_node
  decorations :: "nat list"
  getPos :: "editor_view \<Rightarrow> int"
  isDragging :: bool
  options :: node_view_renderer_options
  position :: int
  isSame :: "bool option"
  cache :: "cache_item option"

text \<open>
  The editor of the model. \<open>heap\<close> holds the node view objects (a reference is an
  index; \<open>new\<close> appends). \<open>listeners\<close> are the handlers subscribed to
  \<open>'beforeUpdateState'\<close>: every instance has its own arrow function
  \<open>onBeforeUpdateState\<close>, so a handler is named by its instance. \<open>mount_calls\<close> and
  \<open>destroyed_calls\<close> record the calls of the overridable hooks \<open>mount()\<close> and
  \<open>destroyed()\<close>, whose bodies in this class are empty.
\<close>

record node_view_cache =
  cache_data :: "cache_item list"
  next_id :: nat

record editor =
  isEditable :: bool
  view :: editor_view
  nodeViewCache :: node_view_cache
  listeners :: "ref list"
  heap :: "node_view list"
  mount_calls :: "ref list"
  destroyed_calls :: "ref list"

datatype error = TypeError | DuplicateCacheEntry | DanglingReference

definition deref :: "node_view list \<Rightarrow> ref \<Rightarrow> node_view option" where
  "deref h r = (if r < length h then Some (h ! r) else None)"

text \<open>Every handle in the cache refers to an allocated object.\<close>

definition cache_refs_valid :: "editor \<Rightarrow> bool" where
  "cache_refs_valid e =
     list_all (\<lambda>item. item_instance item < length (heap e)) (cache_data (nodeViewCache e))"

section \<open>Position tracking: \<open>onBeforeUpdateState\<close>\<close>

text \<open>
  The loop \<open>transaction.mapping.maps.forEach(map => { newPosition = map.map(newPosition, -1) })\<close>.
\<close>

fun forEach_map :: "step_map list \<Rightarrow> int \<Rightarrow> int" where
  "forEach_map [] newPosition = newPosition"
| "forEach_map (m # maps) newPosition = forEach_map maps (m newPosition (- 1))"

definition onBeforeUpdateState :: "transaction \<Rightarrow> node_view \<Rightarrow> node_view" where
  "onBeforeUpdateState tr this =
     (if \<not> docChanged tr then this
      else
        let newPosition = forEach_map (mapping_maps tr) (position this);
            newNode = doc_nodeAt tr newPosition;
            same = (strict_eq_node newNode (node this)
                    \<and> getMeta tr ''uiEvent'' \<noteq> JStr ''paste''
                    \<and> getMeta tr ''uiEvent'' \<noteq> JStr ''drop'')
        in this\<lparr>isSame := Some same, position := newPosition\<rparr>)"

section \<open>Collaborators outside \<open>NodeView.ts\<close>\<close>

text \<open>
  Modelled from the spec: the test of the Instance Cache (\<open>./NodeViewCache\<close>, absent
  from the sources) that an entry is for a node and position: "its stored node reference
  equals the given node and its current position equals the given position". Node and
  position are read from the instance when the lookup runs.
\<close>

definition item_matches :: "node_view list \<Rightarrow> pm_node \<Rightarrow> int \<Rightarrow> cache_item \<Rightarrow> bool" where
  "item_matches h n pos item =
     (case deref h (item_instance item) of
        None \<Rightarrow> False
      | Some nv \<Rightarrow> node_ident (node nv) = node_ident n \<and> position nv = pos)"

text \<open>
  Modelled from the spec: \<open>findNodeAtPosition\<close> of the Instance Cache "returns a
  previously registered instance iff" the entry passes that test; the first such entry
  is returned, as the handle with \<open>id\<close> and \<open>instance\<close>.
\<close>

definition findNodeAtPosition ::
  "node_view list \<Rightarrow> node_view_cache \<Rightarrow> pm_node \<Rightarrow> int \<Rightarrow> cache_item option" where
  "findNodeAtPosition h c n pos = find (item_matches h n pos) (cache_data c)"

text \<open>
  Modelled from the spec: \<open>add\<close> "registers a new instance; fails (signals a
  programming-error condition) if an entry with the same node+position already exists",
  and returns the handle of the new entry.
\<close>

definition cache_add ::
  "node_view list \<Rightarrow> ref \<Rightarrow> node_view_cache \<Rightarrow> error + (cache_item \<times> node_view_cache)" where
  "cache_add h r c =
     (case deref h r of
        None \<Rightarrow> Inl DanglingReference
      | Some nv \<Rightarrow>
          if list_ex (item_matches h (node nv) (position nv)) (cache_data c)
          then Inl DuplicateCacheEntry
          else
            let item = \<lparr>item_id = next_id c, item_instance = r\<rparr>
            in Inr (item, c\<lparr>cache_data := cache_data c @ [item], next_id := Suc (next_id c)\<rparr>))"

text \<open>Modelled from the spec: \<open>remove\<close> "deregisters; no-op if already absent (idempotent)".\<close>

definition cache_remove :: "nat \<Rightarrow> node_view_cache \<Rightarrow> node_view_cache" where
  "cache_remove i c = c\<lparr>cache_data := filter (\<lambda>item. item_id item \<noteq> i) (cache_data c)\<rparr>"

text \<open>
  Modelled from the spec: \<open>on(eventName, handler)\<close> of the editor (\<open>./Editor\<close>,
  absent from the sources), for the one event \<open>'beforeUpdateState'\<close>; handlers are
  kept in subscription order.
\<close>

definition editor_on :: "ref \<Rightarrow> editor \<Rightarrow> editor" where
  "editor_on r e = e\<lparr>listeners := listeners e @ [r]\<rparr>"

text \<open>
  Modelled from the spec: \<open>off(eventName, handler)\<close> of the editor, which removes the
  handler from the subscribers of \<open>'beforeUpdateState'\<close>.
\<close>

definition editor_off :: "ref \<Rightarrow> editor \<Rightarrow> editor" where
  "editor_off r e = e\<lparr>listeners := filter (\<lambda>l. l \<noteq> r) (listeners e)\<rparr>"

section \<open>Construction and teardown\<close>

text \<open>\<open>NodeViewRendererProps\<close>, without the editor (the editor of the model).\<close>

record node_view_renderer_props =
  props_extension :: nat
  props_node :: pm_node
  props_decorations :: "nat list"
  props_getPos :: "editor_view \<Rightarrow> int"

text \<open>The initialiser \<open>options = { stopEvent: null, update: null }\<close>.\<close>

definition default_options :: node_view_renderer_options where
  "default_options = \<lparr>opt_stopEvent = None, opt_update = None\<rparr>"

text \<open>\<open>{ ...this.options, ...options }\<close> with \<open>options\<close> possibly \<open>undefined\<close>.\<close>

definition spread_options ::
  "node_view_renderer_options \<Rightarrow> partial_options option \<Rightarrow> node_view_renderer_options" where
  "spread_options base opts =
     (case opts of
        None \<Rightarrow> base
      | Some p \<Rightarrow>
          \<lparr>opt_stopEvent = (case part_stopEvent p of None \<Rightarrow> opt_stopEvent base | Some v \<Rightarrow> v),
           opt_update = (case part_update p of None \<Rightarrow> opt_update base | Some v \<Rightarrow> v)\<rparr>)"

text \<open>The hooks \<open>mount()\<close> and \<open>destroyed()\<close>: empty bodies, calls recorded.\<close>

definition mount :: "ref \<Rightarrow> editor \<Rightarrow> editor" where
  "mount r e = e\<lparr>mount_calls := mount_calls e @ [r]\<rparr>"

definition destroyed :: "ref \<Rightarrow> editor \<Rightarrow> editor" where
  "destroyed r e = e\<lparr>destroyed_calls := destroyed_calls e @ [r]\<rparr>"

text \<open>
  The object \<open>new\<close> allocates, after the field initialisers and the assignments at the
  head of the constructor, up to \<open>this.position = this.getPos()\<close>.
\<close>

definition assigned_this ::
  "nat \<Rightarrow> node_view_renderer_props \<Rightarrow> partial_options option \<Rightarrow> editor \<Rightarrow> node_view" where
  "assigned_this cmpnt props opts e =
     \<lparr>component = cmpnt,
      extension = props_extension props,
      node = props_node props,
      decorations = props_decorations props,
      getPos = props_getPos props,
      isDragging = False,
      options = spread_options default_options opts,
      position = props_getPos props (view e),
      isSame = None,
      cache = None\<rparr>"

text \<open>
  The constructor. On a cache hit it returns \<open>cache.instance\<close> and \<open>this\<close> is left
  behind, unreachable. The result is the reference that \<open>new NodeView(...)\<close> evaluates to.
\<close>

definition NodeView_constructor ::
  "nat \<Rightarrow> node_view_renderer_props \<Rightarrow> partial_options option \<Rightarrow> editor
   \<Rightarrow> error + (ref \<times> editor)" where
  "NodeView_constructor cmpnt props opts e =
     (let this = assigned_this cmpnt props opts e;
          r = length (heap e);
          e1 = e\<lparr>heap := heap e @ [this]\<rparr>
      in case findNodeAtPosition (heap e1) (nodeViewCache e1) (node this) (position this) of
           Some c \<Rightarrow> Inr (item_instance c, e1)
         | None \<Rightarrow>
             let e2 = editor_on r e1;
                 e3 = mount r e2
             in (case cache_add (heap e3) r (nodeViewCache e3) of
                   Inl err \<Rightarrow> Inl err
                 | Inr (item, c') \<Rightarrow>
                     let this1 = this\<lparr>cache := Some item\<rparr>
                     in Inr (r, e3\<lparr>nodeViewCache := c', heap := list_update (heap e3) r this1\<rparr>)))"

text \<open>
  The subscribed handler of instance \<open>r\<close> run on a transaction: \<open>onBeforeUpdateState\<close>
  with \<open>this\<close> the object at \<open>r\<close>.
\<close>

definition handle_beforeUpdateState :: "ref \<Rightarrow> transaction \<Rightarrow> editor \<Rightarrow> editor" where
  "handle_beforeUpdateState r tr e =
     (case deref (heap e) r of
        None \<Rightarrow> e
      | Some this \<Rightarrow> e\<lparr>heap := list_update (heap e) r (onBeforeUpdateState tr this)\<rparr>)"

fun handle_all :: "ref \<Rightarrow> transaction list \<Rightarrow> editor \<Rightarrow> editor" where
  "handle_all r [] e = e"
| "handle_all r (tr # trs) e = handle_all r trs (handle_beforeUpdateState r tr e)"

text \<open>
  \<open>destroy()\<close>. \<open>!this.isSame\<close> holds when the flag is \<open>false\<close> or still \<open>undefined\<close>;
  \<open>this.cache.id\<close> throws a TypeError when \<open>this.cache\<close> is \<open>undefined\<close>.
\<close>

definition destroy :: "ref \<Rightarrow> editor \<Rightarrow> error + editor" where
  "destroy r e =
     (case deref (heap e) r of
        None \<Rightarrow> Inl DanglingReference
      | Some this \<Rightarrow>
          if isSame this \<noteq> Some True then
            (case cache this of
               None \<Rightarrow> Inl TypeError
             | Some c \<Rightarrow>
                 let e1 = e\<lparr>nodeViewCache := cache_remove (item_id c) (nodeViewCache e)\<rparr>;
                     e2 = editor_off r e1
                 in Inr (destroyed r e2))
          else Inr e)"

text \<open>\<open>destroy()\<close> called twice in a row.\<close>

definition destroy_twice :: "ref \<Rightarrow> editor \<Rightarrow> error + editor" where
  "destroy_twice r e = (case destroy r e of Inl err \<Rightarrow> Inl err | Inr e1 \<Rightarrow> destroy r e1)"

section \<open>Event mediation\<close>

text \<open>
  The accessors \<open>dom\<close> and \<open>contentDOM\<close> are meant to be overridden by the rendering
  subclass; in this class both return \<open>null\<close>. \<open>stopEvent\<close> and \<open>ignoreMutation\<close>
  take the values of \<open>this.dom\<close> and \<open>this.contentDOM\<close> as arguments.
\<close>

definition NodeView_dom :: "element option" where
  "NodeView_dom = None"

definition NodeView_contentDOM :: "element option" where
  "NodeView_contentDOM = None"

text \<open>
  What a call of \<open>stopEvent\<close> leaves behind: the value returned, the event (after a
  possible \<open>preventDefault()\<close>), the instance (after a possible \<open>isDragging = true\<close>)
  and the one-shot listeners registered on the document.
\<close>

record stop_event_outcome =
  returned :: bool
  event_after :: dom_event
  this_after :: node_view
  document_listeners :: "string list"

definition outcome ::
  "bool \<Rightarrow> dom_event \<Rightarrow> node_view \<Rightarrow> string list \<Rightarrow> stop_event_outcome" where
  "outcome b event this ls =
     \<lparr>returned = b, event_after = event, this_after = this, document_listeners = ls\<rparr>"

text \<open>\<open>this.contentDOM?.contains(target)\<close>, as a truth value.\<close>

definition optional_contains :: "element option \<Rightarrow> element \<Rightarrow> bool" where
  "optional_contains contentDOM target =
     (case contentDOM of None \<Rightarrow> False | Some c \<Rightarrow> contains c target)"

text \<open>
  \<open>stopEvent(event)\<close>; \<open>editor_isEditable\<close> is \<open>this.editor.isEditable\<close>. The guard clauses
  are in the order of the source, and \<open>isDragging\<close> is read before the handle check may
  set \<open>this.isDragging\<close>.
\<close>

definition stopEvent ::
  "dom_document \<Rightarrow> bool \<Rightarrow> element option \<Rightarrow> element option \<Rightarrow> node_view \<Rightarrow> dom_event
   \<Rightarrow> stop_event_outcome" where
  "stopEvent d editor_isEditable view_dom contentDOM this event =
     (case view_dom of
        None \<Rightarrow> outcome False event this []
      | Some root \<Rightarrow>
          (case opt_stopEvent (options this) of
             Some override \<Rightarrow> outcome (override event) event this []
           | None \<Rightarrow>
               let target = event_target event;
                   isInElement = (contains root target \<and> \<not> optional_contains contentDOM target)
               in
               if \<not> isInElement then outcome False event this []
               else
                 let isInput = (tagName d target \<in> set [''INPUT'', ''BUTTON'', ''SELECT'', ''TEXTAREA'']
                                \<or> isContentEditable d target)
                 in
                 if isInput then outcome True event this []
                 else
                   let dragging = isDragging this;
                       isDraggable = spec_draggable (node this);
                       selectable = isSelectable (node this);
                       isCopyEvent = (event_type event = ''copy'');
                       isPasteEvent = (event_type event = ''paste'');
                       isCutEvent = (event_type event = ''cut'');
                       isClickEvent = (event_type event = ''mousedown'');
                       isDragEvent = (prefix ''drag'' (event_type event) \<or> event_type event = ''drop'');
                       event1 = (if \<not> isDraggable \<and> selectable \<and> isDragEvent
                                 then preventDefault event else event)
                   in
                   if isDraggable \<and> isDragEvent \<and> \<not> dragging
                   then outcome False (preventDefault event1) this []
                   else
                     let armed =
                           (if isDraggable \<and> editor_isEditable \<and> \<not> dragging \<and> isClickEvent
                            then (case closest_drag_handle d target of
                                    None \<Rightarrow> False
                                  | Some dragHandle \<Rightarrow> root = dragHandle \<or> contains root dragHandle)
                            else False);
                         this1 = (if armed then this\<lparr>isDragging := True\<rparr> else this);
                         ls = (if armed then [''dragend'', ''mouseup''] else [])
                     in
                     if dragging \<or> isCopyEvent \<or> isPasteEvent \<or> isCutEvent
                        \<or> (isClickEvent \<and> selectable)
                     then outcome False event1 this1 ls
                     else outcome True event1 this1 ls))"

text \<open>
  \<open>ignoreMutation(mutation)\<close>; \<open>isiOS\<close> is the result of the utility \<open>isiOS()\<close>
  (\<open>./utilities/isiOS\<close>, a platform test outside these sources).
\<close>

definition ignoreMutation ::
  "dom_document \<Rightarrow> bool \<Rightarrow> element option \<Rightarrow> element option \<Rightarrow> node_view \<Rightarrow> mutation \<Rightarrow> bool" where
  "ignoreMutation d isiOS view_dom contentDOM this m =
     (case view_dom of
        None \<Rightarrow> True
      | Some root \<Rightarrow>
          (case contentDOM of
             None \<Rightarrow> True
           | Some content \<Rightarrow>
               if isLeaf (node this) then True
               else if mutation_type m = ''selection'' then False
               else if contains root (mutation_target m) \<and> mutation_type m = ''childList'' \<and> isiOS
                       \<and> list_all (isContentEditable d) (addedNodes m @ removedNodes m)
               then False
               else if content = mutation_target m \<and> mutation_type m = ''attributes'' then True
               else if contains content (mutation_target m) then False
               else True))"

section \<open>Attribute update\<close>

text \<open>\<open>{ ...this.node.attrs, ...attributes }\<close>: the keys of the second object win.\<close>

definition object_spread :: "js_object \<Rightarrow> js_object \<Rightarrow> js_object" where
  "object_spread a b = a ++ b"

text \<open>
  \<open>updateAttributes(attributes)\<close>, on the editing view \<open>this.editor.view\<close>; the second
  argument of \<open>setNodeMarkup\<close> is \<open>undefined\<close>.
\<close>

definition updateAttributes :: "node_view \<Rightarrow> js_object \<Rightarrow> editor_view \<Rightarrow> editor_view" where
  "updateAttributes this attributes v =
     (if \<not> editable v then v
      else
        let state = view_state v;
            pos = getPos this v;
            tr = SetNodeMarkup state pos None (object_spread (attrs (node this)) attributes)
        in dispatch tr v)"

section \<open>Example data\<close>

text \<open>
  Two remap functions of the kind the host engine produces: an insertion of \<open>len\<close>
  positions at \<open>at\<close> (a position exactly at the insertion point stays before the
  inserted content when the bias is negative) and a deletion of \<open>len\<close> positions
  after \<open>from\<close>.
\<close>

definition insert_map :: "int \<Rightarrow> int \<Rightarrow> step_map" where
  "insert_map at len pos assoc =
     (if pos < at then pos
      else if pos = at then (if assoc < 0 then pos else pos + len)
      else pos + len)"

definition delete_map :: "int \<Rightarrow> int \<Rightarrow> step_map" where
  "delete_map from len pos assoc =
     (if pos \<le> from then pos else if pos < from + len then from else pos - len)"

definition ex_node :: pm_node where
  "ex_node = \<lparr>node_ident = 1, isLeaf = False, spec_draggable = False, isSelectable = True,
               attrs = [''src'' \<mapsto> JStr ''a.png'', ''width'' \<mapsto> JNum 10]\<rparr>"

text \<open>An instance bound to \<open>ex_node\<close> at position 5, as the constructor leaves it.\<close>

definition ex_this :: node_view where
  "ex_this = \<lparr>component = 7, extension = 0, node = ex_node, decorations = [],
               getPos = (\<lambda>v. 5), isDragging = False, options = default_options,
               position = 5, isSame = None,
               cache = Some \<lparr>item_id = 0, item_instance = 0\<rparr>\<rparr>"

text \<open>
  A transaction that inserts four positions at 3 and then deletes the first two, with
  \<open>ex_node\<close> at position 7 of the resulting document.
\<close>

definition ex_tr :: "bool \<Rightarrow> js_value \<Rightarrow> transaction" where
  "ex_tr changed uiEvent =
     \<lparr>docChanged = changed,
      mapping_maps = [insert_map 3 4, delete_map 0 2],
      doc_nodeAt = (\<lambda>pos. if pos = 7 then Some ex_node else None),
      getMeta = (\<lambda>key. if key = ''uiEvent'' then uiEvent else JUndefined)\<rparr>"

text \<open>A leaf node bound to an instance.\<close>

definition ex_leaf_this :: node_view where
  "ex_leaf_this = ex_this\<lparr>node := ex_node\<lparr>node_ident := 2, isLeaf := True\<rparr>\<rparr>"

text \<open>
  A rendered node view: the root element \<open>[0]\<close> holds an \<open>INPUT\<close> at \<open>[0, 0]\<close>,
  the editable content region at \<open>[0, 1]\<close>, an editable caption at \<open>[0, 2]\<close> and a
  plain element at \<open>[0, 3]\<close>; \<open>[1]\<close> is a sibling of the root.
\<close>

definition ex_document :: dom_document where
  "ex_document = \<lparr>tagName = (\<lambda>e. if e = [0, 0] then ''INPUT'' else ''DIV''),
                   isContentEditable = (\<lambda>e. prefix [0, 1] e \<or> e = [0, 2]),
                   data_drag_handle = (\<lambda>e. False)\<rparr>"

definition ex_event :: "string \<Rightarrow> element \<Rightarrow> dom_event" where
  "ex_event ty tgt = \<lparr>event_type = ty, event_target = tgt, defaultPrevented = False\<rparr>"

definition ex_mutation :: "string \<Rightarrow> element \<Rightarrow> mutation" where
  "ex_mutation ty tgt =
     \<lparr>mutation_type = ty, mutation_target = tgt, addedNodes = [], removedNodes = []\<rparr>"

definition ex_view :: "bool \<Rightarrow> editor_view" where
  "ex_view b = \<lparr>editable = b, view_state = 0, dispatched = []\<rparr>"

definition ex_patch :: js_object where
  "ex_patch = [''width'' \<mapsto> JNum 20, ''alt'' \<mapsto> JStr ''x'']"

text \<open>
  Editors: a new one; \<open>ex_editor\<close>, after one node view was constructed for \<open>ex_node\<close>
  at position 5; and that editor after a transaction moved the node to position 7, once
  as a paste (\<open>isSame = false\<close>) and once as a plain edit (\<open>isSame = true\<close>).
\<close>

definition initial_editor :: editor where
  "initial_editor =
     \<lparr>isEditable = True,
      view = \<lparr>editable = True, view_state = 0, dispatched = []\<rparr>,
      nodeViewCache = \<lparr>cache_data = [], next_id = 0\<rparr>,
      listeners = [], heap = [], mount_calls = [], destroyed_calls = []\<rparr>"

definition ex_props :: node_view_renderer_props where
  "ex_props = \<lparr>props_extension = 0, props_node = ex_node, props_decorations = [],
                props_getPos = (\<lambda>v. 5)\<rparr>"

definition ex_editor :: editor where
  "ex_editor =
     \<lparr>isEditable = True,
      view = \<lparr>editable = True, view_state = 0, dispatched = []\<rparr>,
      nodeViewCache = \<lparr>cache_data = [\<lparr>item_id = 0, item_instance = 0\<rparr>], next_id = 1\<rparr>,
      listeners = [0], heap = [ex_this], mount_calls = [0], destroyed_calls = []\<rparr>"

definition ex_pasted_editor :: editor where
  "ex_pasted_editor = ex_editor\<lparr>heap := [ex_this\<lparr>isSame := Some False, position := 7\<rparr>]\<rparr>"

definition ex_moved_editor :: editor where
  "ex_moved_editor = ex_editor\<lparr>heap := [ex_this\<lparr>isSame := Some True, position := 7\<rparr>]\<rparr>"

text \<open>
  A second construction request for the same node at the same position, with another
  component, other decorations, another resolver and a \<open>stopEvent\<close> override.
\<close>

definition ex_other_props :: node_view_renderer_props where
  "ex_other_props = \<lparr>props_extension = 3, props_node = ex_node, props_decorations = [4, 5],
                      props_getPos = (\<lambda>v. 5 + int (view_state v))\<rparr>"

definition ex_other_options :: partial_options where
  "ex_other_options = \<lparr>part_stopEvent = Some (Some (\<lambda>event. True)), part_update = None\<rparr>"

section \<open>Auxiliary facts\<close>

lemma forEach_map_foldl:
  "forEach_map maps p = foldl (\<lambda>newPosition m. m newPosition (- 1)) p maps"
  by (induction maps arbitrary: p) simp_all

subsection \<open>Cache lookup and allocation\<close>

text \<open>Allocating a new object does not change what a valid handle refers to.\<close>

lemma item_matches_snoc:
  "item_instance item < length h \<Longrightarrow> item_matches (h @ [x]) n p item = item_matches h n p item"
  by (simp add: item_matches_def deref_def nth_append)

lemma find_matches_snoc:
  "list_all (\<lambda>item. item_instance item < length h) items \<Longrightarrow>
   find (item_matches (h @ [x]) n p) items = find (item_matches h n p) items"
  by (induction items) (simp_all add: item_matches_snoc)

lemma findNodeAtPosition_snoc:
  "cache_refs_valid e \<Longrightarrow>
   findNodeAtPosition (heap e @ [x]) (nodeViewCache e) n p
     = findNodeAtPosition (heap e) (nodeViewCache e) n p"
  by (simp add: findNodeAtPosition_def cache_refs_valid_def find_matches_snoc)

lemma find_None_list_ex: "(find P xs = None) = (\<not> list_ex P xs)"
  by (auto simp: find_None_iff list_ex_iff)

lemma registered_found:
  assumes "cache_refs_valid e"
    and "list_ex (item_matches (heap e) n p) (cache_data (nodeViewCache e))"
  shows "\<exists>item. findNodeAtPosition (heap e) (nodeViewCache e) n p = Some item
           \<and> item \<in> set (cache_data (nodeViewCache e))
           \<and> item_matches (heap e) n p item
           \<and> item_instance item < length (heap e)"
proof -
  from assms(2) obtain item where
    f: "findNodeAtPosition (heap e) (nodeViewCache e) n p = Some item"
    by (cases "findNodeAtPosition (heap e) (nodeViewCache e) n p")
       (simp_all add: findNodeAtPosition_def find_None_list_ex)
  then have m: "item \<in> set (cache_data (nodeViewCache e))" "item_matches (heap e) n p item"
    by (auto simp add: findNodeAtPosition_def find_Some_iff)
  from m(1) assms(1) have "item_instance item < length (heap e)"
    by (simp add: cache_refs_valid_def list_all_iff)
  with f m show ?thesis by simp
qed

subsection \<open>The two paths of the constructor\<close>

lemma constructor_hit:
  assumes "cache_refs_valid e"
    and "findNodeAtPosition (heap e) (nodeViewCache e) (props_node props)
           (props_getPos props (view e)) = Some item"
  shows "NodeView_constructor cmpnt props opts e =
           Inr (item_instance item, e\<lparr>heap := heap e @ [assigned_this cmpnt props opts e]\<rparr>)"
  using assms
  by (simp add: NodeView_constructor_def Let_def findNodeAtPosition_snoc assigned_this_def)

lemma constructor_miss:
  assumes "cache_refs_valid e"
    and "findNodeAtPosition (heap e) (nodeViewCache e) (props_node props)
           (props_getPos props (view e)) = None"
  shows "NodeView_constructor cmpnt props opts e =
           Inr (length (heap e),
                e\<lparr>heap := heap e @ [(assigned_this cmpnt props opts e)
                        \<lparr>cache := Some \<lparr>item_id = next_id (nodeViewCache e),
                                        item_instance = length (heap e)\<rparr>\<rparr>],
                  listeners := listeners e @ [length (heap e)],
                  mount_calls := mount_calls e @ [length (heap e)],
                  nodeViewCache := \<lparr>cache_data = cache_data (nodeViewCache e)
                        @ [\<lparr>item_id = next_id (nodeViewCache e), item_instance = length (heap e)\<rparr>],
                     next_id = Suc (next_id (nodeViewCache e))\<rparr>\<rparr>)"
proof -
  let ?t = "assigned_this cmpnt props opts e"
  have n: "node ?t = props_node props" and p: "position ?t = props_getPos props (view e)"
    by (simp_all add: assigned_this_def)
  have f: "findNodeAtPosition (heap e @ [?t]) (nodeViewCache e) (node ?t) (position ?t) = None"
    using assms by (simp add: findNodeAtPosition_snoc n p)
  then have nex: "\<not> list_ex (item_matches (heap e @ [?t]) (node ?t) (position ?t))
                      (cache_data (nodeViewCache e))"
    by (simp add: findNodeAtPosition_def find_None_list_ex)
  show ?thesis
    using f nex
    by (simp add: NodeView_constructor_def Let_def editor_on_def mount_def cache_add_def deref_def)
qed

text \<open>
  The constructor never fails: \<open>add\<close> runs only after the lookup for the same node and
  position found nothing.
\<close>

lemma constructor_total:
  assumes "cache_refs_valid e"
  shows "\<exists>r e'. NodeView_constructor cmpnt props opts e = Inr (r, e')"
proof (cases "findNodeAtPosition (heap e) (nodeViewCache e) (props_node props)
                (props_getPos props (view e))")
  case None
  then show ?thesis using constructor_miss [OF assms None, of cmpnt opts] by simp
next
  case (Some item)
  then show ?thesis using constructor_hit [OF assms Some, of cmpnt opts] by simp
qed

subsection \<open>Validity of the cache handles is an invariant\<close>

lemma initial_editor_valid: "cache_refs_valid initial_editor"
  by (simp add: cache_refs_valid_def initial_editor_def)

lemma list_all_instance_mono:
  "list_all (\<lambda>item. item_instance item < n) items \<Longrightarrow> n \<le> m \<Longrightarrow>
   list_all (\<lambda>item. item_instance item < m) items"
  by (induction items) auto

lemma constructor_preserves_valid:
  assumes "cache_refs_valid e" and "NodeView_constructor cmpnt props opts e = Inr (r, e')"
  shows "cache_refs_valid e'"
proof -
  from assms(1)
  have grown: "list_all (\<lambda>item. item_instance item < Suc (length (heap e)))
                 (cache_data (nodeViewCache e))"
    unfolding cache_refs_valid_def by (rule list_all_instance_mono) simp
  show ?thesis
  proof (cases "findNodeAtPosition (heap e) (nodeViewCache e) (props_node props)
                  (props_getPos props (view e))")
    case None
    with grown show ?thesis
      using constructor_miss [OF assms(1) None, of cmpnt opts] assms(2)
      by (auto simp add: cache_refs_valid_def)
  next
    case (Some item)
    with grown show ?thesis
      using constructor_hit [OF assms(1) Some, of cmpnt opts] assms(2)
      by (auto simp add: cache_refs_valid_def)
  qed
qed

lemma handle_preserves_valid:
  "cache_refs_valid e \<Longrightarrow> cache_refs_valid (handle_beforeUpdateState r tr e)"
  by (simp add: cache_refs_valid_def handle_beforeUpdateState_def split: option.splits)

lemma destroy_preserves_valid:
  assumes "cache_refs_valid e" and "destroy r e = Inr e'"
  shows "cache_refs_valid e'"
  using assms
  by (auto simp add: cache_refs_valid_def destroy_def cache_remove_def editor_off_def
      destroyed_def Let_def list_all_iff split: option.splits if_splits)

subsection \<open>Transactions that do not change the document\<close>

lemma handle_unchanged:
  "\<not> docChanged tr \<Longrightarrow> handle_beforeUpdateState r tr e = e"
  by (simp add: onBeforeUpdateState_def handle_beforeUpdateState_def deref_def)

lemma handle_all_unchanged:
  "list_all (\<lambda>tr. \<not> docChanged tr) trs \<Longrightarrow> handle_all r trs e = e"
  by (induction trs arbitrary: e) (simp_all add: handle_unchanged)

subsection \<open>The class without a rendering subclass\<close>

lemma base_class_stopEvent:
  "returned (stopEvent d ed NodeView_dom NodeView_contentDOM this ev) = False"
  by (simp add: stopEvent_def NodeView_dom_def outcome_def)

lemma base_class_ignoreMutation:
  "ignoreMutation d ios NodeView_dom NodeView_contentDOM this m = True"
  by (simp add: ignoreMutation_def NodeView_dom_def)

subsection \<open>The example editors are reachable\<close>

lemma ex_editor_reachable:
  "NodeView_constructor 7 ex_props None initial_editor = Inr (0, ex_editor)"
  by (simp add: NodeView_constructor_def assigned_this_def initial_editor_def ex_props_def
      findNodeAtPosition_def editor_on_def mount_def cache_add_def deref_def spread_options_def
      ex_editor_def ex_this_def Let_def)

lemma ex_pasted_editor_reachable:
  "handle_beforeUpdateState 0 (ex_tr True (JStr ''paste'')) ex_editor = ex_pasted_editor"
  by (simp add: handle_beforeUpdateState_def ex_editor_def ex_pasted_editor_def deref_def
      onBeforeUpdateState_def ex_tr_def ex_this_def insert_map_def delete_map_def Let_def)

lemma ex_moved_editor_reachable:
  "handle_beforeUpdateState 0 (ex_tr True JUndefined) ex_editor = ex_moved_editor"
  by (simp add: handle_beforeUpdateState_def ex_editor_def ex_moved_editor_def deref_def
      onBeforeUpdateState_def ex_tr_def ex_this_def insert_map_def delete_map_def Let_def
      strict_eq_node_def)

lemma ex_editor_valid: "cache_refs_valid ex_editor"
  by (simp add: cache_refs_valid_def ex_editor_def)

lemma ex_editor_registered:
  "list_ex (item_matches (heap ex_editor) (props_node ex_other_props)
              (props_getPos ex_other_props (view ex_editor)))
     (cache_data (nodeViewCache ex_editor))"
  by (simp add: ex_editor_def ex_other_props_def item_matches_def deref_def ex_this_def)

lemma ex_editor_reuse:
  "NodeView_constructor 99 ex_other_props (Some ex_other_options) ex_editor
     = Inr (0, ex_editor\<lparr>heap :=
                [ex_this, assigned_this 99 ex_other_props (Some ex_other_options) ex_editor]\<rparr>)"
  by (simp add: NodeView_constructor_def Let_def findNodeAtPosition_def ex_editor_def
      item_matches_def deref_def ex_this_def assigned_this_def ex_other_props_def)

section \<open>The position tracker\<close>

text \<open>
  Claim C1. After \<open>onBeforeUpdateState\<close> has processed a document-changing transaction,
  the stored flag \<open>isSame\<close> is a boolean, and it is true exactly when the node found at
  the remapped position is the very object bound to the instance and the \<open>uiEvent\<close>
  metadata is neither \<open>'paste'\<close> nor \<open>'drop'\<close>. In particular a transaction tagged
  \<open>'paste'\<close> gives \<open>false\<close>, whatever node is at the new position.
\<close>

theorem isSame_after_transaction:
  assumes "docChanged tr"
  shows "isSame (onBeforeUpdateState tr this) =
           Some (strict_eq_node (doc_nodeAt tr (position (onBeforeUpdateState tr this))) (node this)
                 \<and> getMeta tr ''uiEvent'' \<noteq> JStr ''paste''
                 \<and> getMeta tr ''uiEvent'' \<noteq> JStr ''drop'')
         \<and> (getMeta tr ''uiEvent'' = JStr ''paste''
              \<longrightarrow> isSame (onBeforeUpdateState tr this) = Some False)"
  using assms by (simp add: onBeforeUpdateState_def Let_def)

theorem isSame_after_transaction_witness:
  "docChanged (ex_tr True (JStr ''paste''))
   \<and> strict_eq_node (doc_nodeAt (ex_tr True (JStr ''paste'')) 7) (node ex_this)
   \<and> position (onBeforeUpdateState (ex_tr True (JStr ''paste'')) ex_this) = 7
   \<and> isSame (onBeforeUpdateState (ex_tr True (JStr ''paste'')) ex_this) = Some False
   \<and> isSame (onBeforeUpdateState (ex_tr True JUndefined) ex_this) = Some True"
  using isSame_after_transaction [of "ex_tr True (JStr ''paste'')" ex_this]
        isSame_after_transaction [of "ex_tr True JUndefined" ex_this]
  by (simp add: ex_tr_def ex_this_def ex_node_def onBeforeUpdateState_def strict_eq_node_def
        insert_map_def delete_map_def)

text \<open>
  Claim C4. For a document-changing transaction, the position stored by
  \<open>onBeforeUpdateState\<close> is the left fold of the transaction's remap functions, in their
  order, over the old position, each applied with bias \<open>-1\<close>; the list of remap
  functions is arbitrary.
\<close>

theorem position_is_left_fold:
  assumes "docChanged tr"
  shows "position (onBeforeUpdateState tr this) =
           foldl (\<lambda>newPosition m. m newPosition (- 1)) (position this) (mapping_maps tr)"
  using assms by (simp add: onBeforeUpdateState_def Let_def forEach_map_foldl)

theorem position_is_left_fold_witness:
  "docChanged (ex_tr True JUndefined)
   \<and> position (onBeforeUpdateState (ex_tr True JUndefined) ex_this)
       = delete_map 0 2 (insert_map 3 4 5 (- 1)) (- 1)
   \<and> position (onBeforeUpdateState (ex_tr True JUndefined) ex_this) = 7"
  using position_is_left_fold [of "ex_tr True JUndefined" ex_this]
  by (simp add: ex_tr_def ex_this_def insert_map_def delete_map_def)

text \<open>
  Claim C5. For a transaction whose \<open>docChanged\<close> is false, \<open>onBeforeUpdateState\<close>
  returns the instance as it was (position, \<open>isSame\<close> and every other field), and
  running the subscribed handler leaves the whole editor as it was.
\<close>

theorem unchanged_document_is_noop:
  assumes "\<not> docChanged tr"
  shows "onBeforeUpdateState tr this = this \<and> handle_beforeUpdateState r tr e = e"
  using assms
  by (simp add: onBeforeUpdateState_def handle_beforeUpdateState_def deref_def)

theorem unchanged_document_is_noop_witness:
  "\<not> docChanged (ex_tr False (JStr ''paste''))
   \<and> onBeforeUpdateState (ex_tr False (JStr ''paste'')) ex_this = ex_this
   \<and> position (onBeforeUpdateState (ex_tr False (JStr ''paste'')) ex_this) = 5
   \<and> isSame (onBeforeUpdateState (ex_tr False (JStr ''paste'')) ex_this) = None"
  using unchanged_document_is_noop [of "ex_tr False (JStr ''paste'')" ex_this]
  by (simp add: ex_tr_def ex_this_def)

section \<open>Construction on a cache hit\<close>

text \<open>
  Claim C3. When the cache holds an entry whose instance is bound to the given node (the
  same object) at the given position, the constructor returns the instance of such an
  entry, an object that existed before the call. The cache is as it was, so its size is
  unchanged; \<open>mount()\<close> is not called; and no handler is subscribed to
  \<open>'beforeUpdateState'\<close>.
\<close>

theorem constructor_reuses_cached_instance:
  assumes "cache_refs_valid e"
    and "list_ex (item_matches (heap e) (props_node props) (props_getPos props (view e)))
           (cache_data (nodeViewCache e))"
  shows "\<exists>item e'. NodeView_constructor cmpnt props opts e = Inr (item_instance item, e')
           \<and> item \<in> set (cache_data (nodeViewCache e))
           \<and> item_matches (heap e) (props_node props) (props_getPos props (view e)) item
           \<and> item_instance item < length (heap e)
           \<and> nodeViewCache e' = nodeViewCache e
           \<and> length (cache_data (nodeViewCache e')) = length (cache_data (nodeViewCache e))
           \<and> mount_calls e' = mount_calls e
           \<and> listeners e' = listeners e"
proof -
  from registered_found [OF assms] obtain item where
    f: "findNodeAtPosition (heap e) (nodeViewCache e) (props_node props)
          (props_getPos props (view e)) = Some item"
    and m: "item \<in> set (cache_data (nodeViewCache e))"
           "item_matches (heap e) (props_node props) (props_getPos props (view e)) item"
           "item_instance item < length (heap e)"
    by blast
  show ?thesis
    using constructor_hit [OF assms(1) f, of cmpnt opts] m by auto
qed

theorem constructor_reuses_cached_instance_witness:
  "cache_refs_valid ex_editor
   \<and> list_ex (item_matches (heap ex_editor) (props_node ex_other_props)
               (props_getPos ex_other_props (view ex_editor)))
        (cache_data (nodeViewCache ex_editor))
   \<and> NodeView_constructor 99 ex_other_props (Some ex_other_options) ex_editor
       = Inr (0, ex_editor\<lparr>heap :=
                  [ex_this, assigned_this 99 ex_other_props (Some ex_other_options) ex_editor]\<rparr>)
   \<and> cache_data (nodeViewCache ex_editor) = [\<lparr>item_id = 0, item_instance = 0\<rparr>]
   \<and> mount_calls ex_editor = [0]
   \<and> listeners ex_editor = [0]"
  using constructor_reuses_cached_instance
          [OF ex_editor_valid ex_editor_registered, of 99 "Some ex_other_options"]
        ex_editor_valid ex_editor_registered ex_editor_reuse
  by (simp add: ex_editor_def)

text \<open>
  Claim C10. On a cache hit the object the constructor returns is, after the call, equal
  to what it was before the call in every field (component, node, decorations, position,
  options, position resolver and the rest): the component, props and options of this
  call are written to the newly allocated object only. No object that existed before the
  call is changed.
\<close>

theorem reuse_leaves_cached_instance_unchanged:
  assumes "cache_refs_valid e"
    and "list_ex (item_matches (heap e) (props_node props) (props_getPos props (view e)))
           (cache_data (nodeViewCache e))"
  shows "\<exists>r e' nv. NodeView_constructor cmpnt props opts e = Inr (r, e')
           \<and> deref (heap e) r = Some nv
           \<and> deref (heap e') r = Some nv
           \<and> take (length (heap e)) (heap e') = heap e"
proof -
  from registered_found [OF assms] obtain item where
    f: "findNodeAtPosition (heap e) (nodeViewCache e) (props_node props)
          (props_getPos props (view e)) = Some item"
    and v: "item_instance item < length (heap e)"
    by blast
  show ?thesis
    using constructor_hit [OF assms(1) f, of cmpnt opts] v
    by (simp add: deref_def nth_append)
qed

theorem reuse_leaves_cached_instance_unchanged_witness:
  "cache_refs_valid ex_editor
   \<and> list_ex (item_matches (heap ex_editor) (props_node ex_other_props)
               (props_getPos ex_other_props (view ex_editor)))
        (cache_data (nodeViewCache ex_editor))
   \<and> deref (heap ex_editor) 0 = Some ex_this
   \<and> deref [ex_this, assigned_this 99 ex_other_props (Some ex_other_options) ex_editor] 0
       = Some ex_this
   \<and> component ex_this = 7
   \<and> decorations ex_this = []
   \<and> opt_stopEvent (options ex_this) = None
   \<and> component (assigned_this 99 ex_other_props (Some ex_other_options) ex_editor) = 99"
proof -
  have d: "deref (heap ex_editor) 0 = Some ex_this"
    by (simp add: ex_editor_def deref_def)
  have f: "component ex_this = 7 \<and> decorations ex_this = []
           \<and> opt_stopEvent (options ex_this) = None
           \<and> component (assigned_this 99 ex_other_props (Some ex_other_options) ex_editor) = 99"
    by (simp add: ex_this_def default_options_def assigned_this_def)
  show ?thesis
    using reuse_leaves_cached_instance_unchanged
            [OF ex_editor_valid ex_editor_registered, of 99 "Some ex_other_options"]
          ex_editor_valid ex_editor_registered d f
    by (simp add: deref_def)
qed

section \<open>Teardown\<close>

text \<open>
  Claim C2, as stated: \<open>destroy()\<close> with \<open>isSame = false\<close> invokes the destroyed
  callback exactly once even if \<open>destroy()\<close> is called twice. It does not hold: on the
  editor whose only instance was replaced by a paste, two calls of \<open>destroy()\<close> call
  \<open>destroyed()\<close> twice.
\<close>

theorem destroy_twice_calls_destroyed_twice:
  "deref (heap ex_pasted_editor) 0 = Some (ex_this\<lparr>isSame := Some False, position := 7\<rparr>)
   \<and> destroy_twice 0 ex_pasted_editor
       = Inr (ex_pasted_editor\<lparr>nodeViewCache := \<lparr>cache_data = [], next_id = 1\<rparr>,
                                listeners := [], destroyed_calls := [0, 0]\<rparr>)"
  by (simp add: destroy_twice_def destroy_def ex_pasted_editor_def ex_editor_def ex_this_def
      deref_def cache_remove_def editor_off_def destroyed_def Let_def)

text \<open>
  Claim C2, amended. For an instance that holds its cache handle: when \<open>isSame\<close> is
  true, \<open>destroy()\<close> (once or twice) changes nothing, so the cache entry stays and
  \<open>destroyed()\<close> is not called. When \<open>isSame\<close> is false or unset, \<open>destroy()\<close>
  removes the cache entry, unsubscribes the handler and calls \<open>destroyed()\<close> once; a
  second \<open>destroy()\<close> leaves the cache as the first one left it (the removal is a
  no-op) and calls \<open>destroyed()\<close> a second time.
\<close>

theorem destroy_respects_isSame:
  assumes "deref (heap e) r = Some this" and "cache this = Some c"
  shows "(isSame this = Some True \<longrightarrow> destroy r e = Inr e \<and> destroy_twice r e = Inr e)
       \<and> (isSame this \<noteq> Some True \<longrightarrow>
            (\<exists>e1 e2. destroy r e = Inr e1 \<and> destroy_twice r e = Inr e2
               \<and> cache_data (nodeViewCache e1)
                   = filter (\<lambda>item. item_id item \<noteq> item_id c) (cache_data (nodeViewCache e))
               \<and> r \<notin> set (listeners e1)
               \<and> destroyed_calls e1 = destroyed_calls e @ [r]
               \<and> nodeViewCache e2 = nodeViewCache e1
               \<and> destroyed_calls e2 = destroyed_calls e @ [r, r]))"
  using assms
  by (auto simp add: destroy_twice_def destroy_def cache_remove_def editor_off_def
      destroyed_def Let_def)

theorem destroy_respects_isSame_witness:
  "deref (heap ex_moved_editor) 0 = Some (ex_this\<lparr>isSame := Some True, position := 7\<rparr>)
   \<and> cache (ex_this\<lparr>isSame := Some True, position := 7\<rparr>)
       = Some \<lparr>item_id = 0, item_instance = 0\<rparr>
   \<and> destroy 0 ex_moved_editor = Inr ex_moved_editor
   \<and> cache_data (nodeViewCache ex_moved_editor) = [\<lparr>item_id = 0, item_instance = 0\<rparr>]
   \<and> destroyed_calls ex_moved_editor = []
   \<and> deref (heap ex_pasted_editor) 0 = Some (ex_this\<lparr>isSame := Some False, position := 7\<rparr>)
   \<and> destroy 0 ex_pasted_editor
       = Inr (ex_pasted_editor\<lparr>nodeViewCache := \<lparr>cache_data = [], next_id = 1\<rparr>,
                                listeners := [], destroyed_calls := [0]\<rparr>)"
proof -
  have a: "deref (heap ex_moved_editor) 0 = Some (ex_this\<lparr>isSame := Some True, position := 7\<rparr>)"
    by (simp add: ex_moved_editor_def deref_def)
  have b: "deref (heap ex_pasted_editor) 0 = Some (ex_this\<lparr>isSame := Some False, position := 7\<rparr>)"
    by (simp add: ex_pasted_editor_def deref_def)
  have c: "cache (ex_this\<lparr>isSame := Some True, position := 7\<rparr>)
             = Some \<lparr>item_id = 0, item_instance = 0\<rparr>"
    by (simp add: ex_this_def)
  have d: "cache (ex_this\<lparr>isSame := Some False, position := 7\<rparr>)
             = Some \<lparr>item_id = 0, item_instance = 0\<rparr>"
    by (simp add: ex_this_def)
  have e: "destroy 0 ex_pasted_editor
       = Inr (ex_pasted_editor\<lparr>nodeViewCache := \<lparr>cache_data = [], next_id = 1\<rparr>,
                                listeners := [], destroyed_calls := [0]\<rparr>)"
    by (simp add: destroy_def ex_pasted_editor_def ex_editor_def ex_this_def
      deref_def cache_remove_def editor_off_def destroyed_def Let_def)
  show ?thesis
    using destroy_respects_isSame [OF a c] destroy_respects_isSame [OF b d] a b c e
    by (simp add: ex_moved_editor_def ex_editor_def)
qed

text \<open>
  Claim C9. Take an instance that the constructor has just built (the lookup found no
  entry), and let its handler process any number of transactions, none of which changes
  the document. Its \<open>isSame\<close> flag is still unset, and \<open>destroy()\<close> takes the teardown
  path: the cache entry of the instance is removed, its handler is unsubscribed, and
  \<open>destroyed()\<close> is called.
\<close>

theorem fresh_instance_is_torn_down:
  assumes "cache_refs_valid e"
    and "findNodeAtPosition (heap e) (nodeViewCache e) (props_node props)
           (props_getPos props (view e)) = None"
    and "list_all (\<lambda>tr. \<not> docChanged tr) trs"
  shows "\<exists>e1 e2 this c.
           NodeView_constructor cmpnt props opts e = Inr (length (heap e), e1)
           \<and> deref (heap (handle_all (length (heap e)) trs e1)) (length (heap e)) = Some this
           \<and> isSame this = None
           \<and> cache this = Some c
           \<and> c \<in> set (cache_data (nodeViewCache e1))
           \<and> length (heap e) \<in> set (listeners e1)
           \<and> destroy (length (heap e)) (handle_all (length (heap e)) trs e1) = Inr e2
           \<and> cache_data (nodeViewCache e2)
               = filter (\<lambda>item. item_id item \<noteq> item_id c) (cache_data (nodeViewCache e1))
           \<and> c \<notin> set (cache_data (nodeViewCache e2))
           \<and> length (heap e) \<notin> set (listeners e2)
           \<and> destroyed_calls e2 = destroyed_calls e1 @ [length (heap e)]"
  using constructor_miss [OF assms(1) assms(2), of cmpnt opts] handle_all_unchanged [OF assms(3)]
  by (simp add: destroy_def deref_def assigned_this_def cache_remove_def editor_off_def
      destroyed_def Let_def)

theorem fresh_instance_is_torn_down_witness:
  "cache_refs_valid initial_editor
   \<and> findNodeAtPosition (heap initial_editor) (nodeViewCache initial_editor)
        (props_node ex_props) (props_getPos ex_props (view initial_editor)) = None
   \<and> list_all (\<lambda>tr. \<not> docChanged tr) [ex_tr False (JStr ''paste''), ex_tr False JUndefined]
   \<and> NodeView_constructor 7 ex_props None initial_editor = Inr (0, ex_editor)
   \<and> destroy 0 (handle_all 0 [ex_tr False (JStr ''paste''), ex_tr False JUndefined] ex_editor)
       = Inr (ex_editor\<lparr>nodeViewCache := \<lparr>cache_data = [], next_id = 1\<rparr>,
                         listeners := [], destroyed_calls := [0]\<rparr>)"
proof -
  have b: "findNodeAtPosition (heap initial_editor) (nodeViewCache initial_editor)
             (props_node ex_props) (props_getPos ex_props (view initial_editor)) = None"
    by (simp add: findNodeAtPosition_def initial_editor_def)
  have c: "list_all (\<lambda>tr. \<not> docChanged tr) [ex_tr False (JStr ''paste''), ex_tr False JUndefined]"
    by (simp add: ex_tr_def)
  have d: "destroy 0 (handle_all 0 [ex_tr False (JStr ''paste''), ex_tr False JUndefined] ex_editor)
       = Inr (ex_editor\<lparr>nodeViewCache := \<lparr>cache_data = [], next_id = 1\<rparr>,
                         listeners := [], destroyed_calls := [0]\<rparr>)"
    by (simp add: handle_beforeUpdateState_def onBeforeUpdateState_def ex_tr_def deref_def
        destroy_def ex_editor_def ex_this_def cache_remove_def editor_off_def destroyed_def Let_def)
  show ?thesis
    using fresh_instance_is_torn_down [OF initial_editor_valid b c, of 7 None]
          initial_editor_valid b c d ex_editor_reachable
    by simp
qed

section \<open>Event mediation policy\<close>

text \<open>
  Claim C6, as stated: without an override, \<open>stopEvent\<close> returns true for a click on
  any content-editable descendant of the root, and false for a copy event anywhere
  inside the root. It does not hold: a mouse-down on the editable paragraph \<open>[0, 1, 0]\<close>
  inside the content region \<open>[0, 1]\<close> returns false, and a copy event on the
  \<open>INPUT\<close> at \<open>[0, 0]\<close> inside the root returns true.
\<close>

theorem stopEvent_claim_fails:
  "opt_stopEvent (options ex_this) = None
   \<and> contains [0] [0, 1, 0]
   \<and> isContentEditable ex_document [0, 1, 0]
   \<and> returned (stopEvent ex_document True (Some [0]) (Some [0, 1]) ex_this
                  (ex_event ''mousedown'' [0, 1, 0])) = False
   \<and> returned (stopEvent ex_document True (Some [0]) (Some [0, 1]) ex_this
                  (ex_event ''click'' [0, 1, 0])) = False
   \<and> contains [0] [0, 0]
   \<and> returned (stopEvent ex_document True (Some [0]) (Some [0, 1]) ex_this
                  (ex_event ''copy'' [0, 0])) = True"
  by (simp add: stopEvent_def ex_this_def default_options_def ex_document_def ex_event_def
        contains_def optional_contains_def outcome_def)

text \<open>
  Claim C6, amended. Without an override and with a root element: \<open>stopEvent\<close> returns
  true for a click (for any event) whose target is a content-editable descendant of the
  root outside the content region; it returns false for a click (for any event) whose
  target is outside the root; and for a copy event whose target is inside the root it
  returns false, except that it returns true when the target is outside the content
  region and is a form control or content-editable.
\<close>

theorem stopEvent_default_policy:
  assumes "opt_stopEvent (options this) = None"
  shows "(contains root (event_target ev) \<and> \<not> optional_contains contentDOM (event_target ev)
            \<and> isContentEditable d (event_target ev)
          \<longrightarrow> returned (stopEvent d ed (Some root) contentDOM this ev) = True)
       \<and> (\<not> contains root (event_target ev)
          \<longrightarrow> returned (stopEvent d ed (Some root) contentDOM this ev) = False)
       \<and> (event_type ev = ''copy'' \<and> contains root (event_target ev)
          \<longrightarrow> returned (stopEvent d ed (Some root) contentDOM this ev)
              = (\<not> optional_contains contentDOM (event_target ev)
                 \<and> (tagName d (event_target ev) \<in> {''INPUT'', ''BUTTON'', ''SELECT'', ''TEXTAREA''}
                    \<or> isContentEditable d (event_target ev))))"
  using assms by (auto simp add: stopEvent_def Let_def outcome_def)

theorem stopEvent_default_policy_witness:
  "opt_stopEvent (options ex_this) = None
   \<and> contains [0] [0, 2] \<and> \<not> optional_contains (Some [0, 1]) [0, 2]
   \<and> isContentEditable ex_document [0, 2]
   \<and> returned (stopEvent ex_document True (Some [0]) (Some [0, 1]) ex_this
                  (ex_event ''mousedown'' [0, 2])) = True
   \<and> \<not> contains [0] [1]
   \<and> returned (stopEvent ex_document True (Some [0]) (Some [0, 1]) ex_this
                  (ex_event ''mousedown'' [1])) = False
   \<and> contains [0] [0, 3]
   \<and> returned (stopEvent ex_document True (Some [0]) (Some [0, 1]) ex_this
                  (ex_event ''copy'' [0, 3])) = False"
proof -
  have a: "opt_stopEvent (options ex_this) = None"
    by (simp add: ex_this_def default_options_def)
  show ?thesis
    using stopEvent_default_policy [OF a, of "[0]" "ex_event ''mousedown'' [0, 2]" "Some [0, 1]"
                                      ex_document True]
          stopEvent_default_policy [OF a, of "[0]" "ex_event ''mousedown'' [1]" "Some [0, 1]"
                                      ex_document True]
          stopEvent_default_policy [OF a, of "[0]" "ex_event ''copy'' [0, 3]" "Some [0, 1]"
                                      ex_document True]
          a
    by (simp add: ex_event_def ex_document_def contains_def optional_contains_def)
qed

text \<open>
  Claim C7. When the bound node is a leaf, \<open>ignoreMutation\<close> returns true for every
  mutation, of whatever type (with root and content elements, and without them too).
  When root and content elements exist and the bound node is not a leaf, it returns false
  for every mutation of type \<open>'selection'\<close>. The claim's proviso that root and content
  elements exist is read as governing both halves.
\<close>

theorem ignoreMutation_leaf_and_selection:
  "(isLeaf (node this) \<longrightarrow> ignoreMutation d ios view_dom contentDOM this m)
   \<and> (\<not> isLeaf (node this) \<and> mutation_type m = ''selection''
      \<longrightarrow> \<not> ignoreMutation d ios (Some root) (Some content) this m)"
  by (simp add: ignoreMutation_def split: option.splits)

theorem ignoreMutation_leaf_and_selection_witness:
  "isLeaf (node ex_leaf_this)
   \<and> ignoreMutation ex_document False (Some [0]) (Some [0, 1]) ex_leaf_this
        (ex_mutation ''selection'' [0, 1, 0])
   \<and> ignoreMutation ex_document False (Some [0]) (Some [0, 1]) ex_leaf_this
        (ex_mutation ''childList'' [0, 1])
   \<and> \<not> isLeaf (node ex_this)
   \<and> mutation_type (ex_mutation ''selection'' [0, 1, 0]) = ''selection''
   \<and> \<not> ignoreMutation ex_document False (Some [0]) (Some [0, 1]) ex_this
          (ex_mutation ''selection'' [0, 1, 0])"
  using ignoreMutation_leaf_and_selection
          [of ex_leaf_this ex_document False "Some [0]" "Some [0, 1]"
              "ex_mutation ''selection'' [0, 1, 0]" "[0]" "[0, 1]"]
        ignoreMutation_leaf_and_selection
          [of ex_leaf_this ex_document False "Some [0]" "Some [0, 1]"
              "ex_mutation ''childList'' [0, 1]" "[0]" "[0, 1]"]
        ignoreMutation_leaf_and_selection
          [of ex_this ex_document False "Some [0]" "Some [0, 1]"
              "ex_mutation ''selection'' [0, 1, 0]" "[0]" "[0, 1]"]
  by (simp add: ex_leaf_this_def ex_this_def ex_node_def ex_mutation_def)

section \<open>Attribute update\<close>

text \<open>
  Claim C8. When the editing view is not editable, \<open>updateAttributes\<close> leaves the view
  as it was and dispatches nothing. When it is editable, exactly one transaction is
  added to those dispatched: \<open>setNodeMarkup\<close> at the position the resolver \<open>getPos\<close>
  returns for the node, with the type left \<open>undefined\<close> and with the attributes of the
  bound node merged with the patch, where a key of the patch takes the patch's value and
  any other key keeps the node's value.
\<close>

theorem updateAttributes_dispatches_merge:
  "(\<not> editable v \<longrightarrow> updateAttributes this patch v = v)
   \<and> (editable v \<longrightarrow>
        dispatched (updateAttributes this patch v)
          = dispatched v @ [SetNodeMarkup (view_state v) (getPos this v) None
                              (object_spread (attrs (node this)) patch)]
        \<and> (\<forall>k. object_spread (attrs (node this)) patch k
                 = (case patch k of Some x \<Rightarrow> Some x | None \<Rightarrow> attrs (node this) k)))"
  by (simp add: updateAttributes_def Let_def dispatch_def object_spread_def map_add_def)

theorem updateAttributes_dispatches_merge_witness:
  "\<not> editable (ex_view False)
   \<and> dispatched (updateAttributes ex_this ex_patch (ex_view False)) = []
   \<and> editable (ex_view True)
   \<and> dispatched (updateAttributes ex_this ex_patch (ex_view True))
       = [SetNodeMarkup 0 5 None (object_spread (attrs ex_node) ex_patch)]
   \<and> object_spread (attrs ex_node) ex_patch ''width'' = Some (JNum 20)
   \<and> object_spread (attrs ex_node) ex_patch ''alt'' = Some (JStr ''x'')
   \<and> object_spread (attrs ex_node) ex_patch ''src'' = Some (JStr ''a.png'')
   \<and> object_spread (attrs ex_node) ex_patch ''title'' = None"
  using updateAttributes_dispatches_merge [of "ex_view False" ex_this ex_patch]
        updateAttributes_dispatches_merge [of "ex_view True" ex_this ex_patch]
  by (simp add: ex_view_def ex_this_def ex_node_def ex_patch_def)

end
